theory Spec2Isabelle
  imports Main
begin

section \<open>The research configuration of \<^verbatim>\<open>blogger_agent/config.py\<close>\<close>

text \<open>
  The module declares one dataclass and one module-level instance of it:
  \<^verbatim>\<open>
  @dataclass
  class ResearchConfiguration:
      critic_model: str = "gemini-2.5-pro"
      worker_model: str = "gemini-2.5-flash"
      max_search_iterations: int = 5

  config = ResearchConfiguration()
  \<close>
  The decorator is applied with its default flags (\<^verbatim>\<open>init\<close>, \<^verbatim>\<open>repr\<close> and \<^verbatim>\<open>eq\<close>
  on, \<^verbatim>\<open>order\<close> and \<^verbatim>\<open>frozen\<close> off), so the class gets a generated \<^verbatim>\<open>__init__\<close>
  with one optional parameter per field and a generated \<^verbatim>\<open>__eq__\<close>, and its fields
  stay assignable. The class body defines no method of its own.
\<close>

subsection \<open>Data\<close>

text \<open>
  The three fields, with the types of their annotations: \<^verbatim>\<open>str\<close> as \<^typ>\<open>string\<close>,
  Python's unbounded \<^verbatim>\<open>int\<close> as \<^typ>\<open>int\<close>.
\<close>

record ResearchConfiguration =
  critic_model :: string
  worker_model :: string
  max_search_iterations :: int

text \<open>
  The generated \<^verbatim>\<open>__init__(self, critic_model="gemini-2.5-pro",
  worker_model="gemini-2.5-flash", max_search_iterations=5)\<close> assigns every parameter to
  the field of the same name. An argument the caller leaves out is \<open>None\<close> here and
  takes the default of the field declaration; an argument the caller passes is
  \<open>Some v\<close> and is stored as it is.
\<close>

definition ResearchConfiguration_init ::
  "string option \<Rightarrow> string option \<Rightarrow> int option \<Rightarrow> ResearchConfiguration" where
  "ResearchConfiguration_init c w n =
     \<lparr> critic_model = (case c of None \<Rightarrow> ''gemini-2.5-pro'' | Some v \<Rightarrow> v),
       worker_model = (case w of None \<Rightarrow> ''gemini-2.5-flash'' | Some v \<Rightarrow> v),
       max_search_iterations = (case n of None \<Rightarrow> 5 | Some v \<Rightarrow> v) \<rparr>"

text \<open>The module-level instance: \<^verbatim>\<open>config = ResearchConfiguration()\<close>.\<close>

definition config :: ResearchConfiguration where
  "config = ResearchConfiguration_init None None None"

text \<open>
  The generated \<^verbatim>\<open>__eq__\<close> compares the tuples of the fields, in declaration order,
  of two instances of the class.
\<close>

definition ResearchConfiguration_eq ::
  "ResearchConfiguration \<Rightarrow> ResearchConfiguration \<Rightarrow> bool" where
  "ResearchConfiguration_eq a b \<longleftrightarrow>
     (critic_model a, worker_model a, max_search_iterations a) =
     (critic_model b, worker_model b, max_search_iterations b)"

subsection \<open>A construction inside a running process\<close>

text \<open>
  What a call could touch besides its arguments: the environment variables (the comment
  at the top of the module names \<^verbatim>\<open>GOOGLE_GENAI_USE_VERTEXAI\<close> and
  \<^verbatim>\<open>GOOGLE_API_KEY\<close>, to be put in a \<^verbatim>\<open>.env\<close> file), the files, and the network,
  kept as the list of messages sent so far.
\<close>

record process_state =
  environ :: "string \<rightharpoonup> string"
  files :: "string \<rightharpoonup> string"
  network :: "string list"

datatype py_error = TypeError | ValueError

text \<open>
  The call \<^verbatim>\<open>ResearchConfiguration(...)\<close> in a process: it returns the new instance or
  the exception raised, and the process state it leaves behind. The class has no
  \<^verbatim>\<open>__post_init__\<close> and the generated \<^verbatim>\<open>__init__\<close> holds assignments only: no
  \<^verbatim>\<open>raise\<close>, no read of \<^verbatim>\<open>os.environ\<close>, no \<^verbatim>\<open>open\<close>, no socket.
\<close>

definition construct ::
  "process_state \<Rightarrow> string option \<Rightarrow> string option \<Rightarrow> int option \<Rightarrow>
     (py_error + ResearchConfiguration) \<times> process_state" where
  "construct p c w n = (Inr (ResearchConfiguration_init c w n), p)"

subsection \<open>Operations on an instance\<close>

datatype attr = Critic_model | Worker_model | Max_search_iterations

datatype pyval = PyStr string | PyInt int

text \<open>Reading a field by name: \<^verbatim>\<open>h.critic_model\<close> and so on.\<close>

fun getattr :: "ResearchConfiguration \<Rightarrow> attr \<Rightarrow> pyval" where
  "getattr h Critic_model = PyStr (critic_model h)"
| "getattr h Worker_model = PyStr (worker_model h)"
| "getattr h Max_search_iterations = PyInt (max_search_iterations h)"

text \<open>
  What a caller can do with an instance: read a field, compare it with another
  instance (the generated \<^verbatim>\<open>__eq__\<close>) and, since the dataclass is not declared
  \<^verbatim>\<open>frozen\<close>, assign to a field (\<^verbatim>\<open>h.max_search_iterations = 10\<close>). Each operation
  returns its outcome and the instance as it is afterwards.
\<close>

datatype operation =
    GetAttr attr
  | Eq ResearchConfiguration
  | SetAttr_critic_model string
  | SetAttr_worker_model string
  | SetAttr_max_search_iterations int

datatype outcome = Value pyval | Truth bool | NoValue

fun perform :: "operation \<Rightarrow> ResearchConfiguration \<Rightarrow> outcome \<times> ResearchConfiguration" where
  "perform (GetAttr a) h = (Value (getattr h a), h)"
| "perform (Eq other) h = (Truth (ResearchConfiguration_eq h other), h)"
| "perform (SetAttr_critic_model v) h = (NoValue, h\<lparr>critic_model := v\<rparr>)"
| "perform (SetAttr_worker_model v) h = (NoValue, h\<lparr>worker_model := v\<rparr>)"
| "perform (SetAttr_max_search_iterations v) h = (NoValue, h\<lparr>max_search_iterations := v\<rparr>)"



section \<open>Defaults and overrides\<close>

text \<open>
  C1. A holder constructed with no overrides has \<open>critic_model\<close> equal to
  \<^verbatim>\<open>"gemini-2.5-pro"\<close>, \<open>worker_model\<close> equal to \<^verbatim>\<open>"gemini-2.5-flash"\<close> and
  \<open>max_search_iterations\<close> equal to 5.
\<close>

theorem init_defaults:
  "critic_model (ResearchConfiguration_init None None None) = ''gemini-2.5-pro'' \<and>
   worker_model (ResearchConfiguration_init None None None) = ''gemini-2.5-flash'' \<and>
   max_search_iterations (ResearchConfiguration_init None None None) = 5"
  by (simp add: ResearchConfiguration_init_def)

text \<open>
  C2. A holder constructed with an override for exactly one of the three fields has the
  supplied value in that field and the defaults in the other two; with
  \<open>max_search_iterations\<close> overridden to 10 and nothing else, the holder has
  \<^verbatim>\<open>"gemini-2.5-pro"\<close>, \<^verbatim>\<open>"gemini-2.5-flash"\<close> and 10.
\<close>

theorem init_one_override:
  "ResearchConfiguration_init (Some c) None None =
     \<lparr> critic_model = c, worker_model = ''gemini-2.5-flash'', max_search_iterations = 5 \<rparr> \<and>
   ResearchConfiguration_init None (Some w) None =
     \<lparr> critic_model = ''gemini-2.5-pro'', worker_model = w, max_search_iterations = 5 \<rparr> \<and>
   ResearchConfiguration_init None None (Some n) =
     \<lparr> critic_model = ''gemini-2.5-pro'', worker_model = ''gemini-2.5-flash'',
       max_search_iterations = n \<rparr> \<and>
   ResearchConfiguration_init None None (Some 10) =
     \<lparr> critic_model = ''gemini-2.5-pro'', worker_model = ''gemini-2.5-flash'',
       max_search_iterations = 10 \<rparr>"
  by (simp add: ResearchConfiguration_init_def)

text \<open>
  C3. For all strings \<open>c\<close> and \<open>w\<close> and every integer \<open>n\<close>, a holder constructed with
  the three fields overridden to \<open>c\<close>, \<open>w\<close> and \<open>n\<close> holds exactly these values: nothing
  is coerced or truncated.
\<close>

theorem init_all_overrides:
  "critic_model (ResearchConfiguration_init (Some c) (Some w) (Some n)) = c \<and>
   worker_model (ResearchConfiguration_init (Some c) (Some w) (Some n)) = w \<and>
   max_search_iterations (ResearchConfiguration_init (Some c) (Some w) (Some n)) = n"
  by (simp add: ResearchConfiguration_init_def)

section \<open>Construction as a call\<close>

text \<open>
  C4. Construction is total: whatever the arguments, the call returns a holder and
  raises nothing. Nothing is validated, so an empty identifier and a zero or negative
  \<open>max_search_iterations\<close> are accepted and stored like any other value.
\<close>

theorem construct_total:
  "(\<exists>h. fst (construct p c w n) = Inr h) \<and>
   (\<exists>h. fst (construct p (Some s) w n) = Inr h \<and> critic_model h = s) \<and>
   (\<exists>h. fst (construct p c (Some s) n) = Inr h \<and> worker_model h = s) \<and>
   (\<exists>h. fst (construct p c w (Some m)) = Inr h \<and> max_search_iterations h = m) \<and>
   fst (construct p (Some []) (Some []) (Some 0)) =
     Inr \<lparr> critic_model = [], worker_model = [], max_search_iterations = 0 \<rparr> \<and>
   fst (construct p None None (Some (- 1))) =
     Inr \<lparr> critic_model = ''gemini-2.5-pro'', worker_model = ''gemini-2.5-flash'',
           max_search_iterations = - 1 \<rparr>"
  by (simp add: construct_def ResearchConfiguration_init_def)

text \<open>
  C7. Construction has no side effect and is deterministic: the call leaves the
  environment, the files and the network as they were, and two calls with equal
  arguments, in the same process state or in two different ones, return holders whose
  three fields are equal.
\<close>

theorem construct_pure:
  "snd (construct p c w n) = p \<and>
   (\<exists>h h'. fst (construct p c w n) = Inr h \<and> fst (construct p' c w n) = Inr h' \<and>
      critic_model h = critic_model h' \<and>
      worker_model h = worker_model h' \<and>
      max_search_iterations h = max_search_iterations h')"
  by (simp add: construct_def)

section \<open>Reading, comparing and assigning\<close>








text \<open>
  C6, as the claim states it: no operation on a constructed holder changes any of its
  three fields. The dataclass is not frozen, and assigning 10 to
  \<open>max_search_iterations\<close> of the default holder changes that field.
\<close>

theorem holder_immutable_counterexample:
  "max_search_iterations (snd (perform (SetAttr_max_search_iterations 10) config)) \<noteq>
   max_search_iterations config"
  by (simp add: config_def ResearchConfiguration_init_def)

text \<open>
  C6, amended. The class defines no mutator method of its own, and reading a field or
  comparing two holders leaves all three fields as they were. The holder is not frozen:
  an assignment to a field after construction is allowed, puts the assigned value in
  that field and leaves the other two fields as they were.
\<close>

theorem perform_frame:
  "snd (perform (GetAttr a) h) = h \<and>
   snd (perform (Eq other) h) = h \<and>
   snd (perform (SetAttr_critic_model s) h) =
     \<lparr> critic_model = s, worker_model = worker_model h,
       max_search_iterations = max_search_iterations h \<rparr> \<and>
   snd (perform (SetAttr_worker_model s) h) =
     \<lparr> critic_model = critic_model h, worker_model = s,
       max_search_iterations = max_search_iterations h \<rparr> \<and>
   snd (perform (SetAttr_max_search_iterations m) h) =
     \<lparr> critic_model = critic_model h, worker_model = worker_model h,
       max_search_iterations = m \<rparr>"
  by (cases h) simp




section \<open>The module-level instance and equality\<close>

text \<open>
  C9. The module exposes one shared default instance, \<open>config\<close>, constructed with no
  overrides: its fields are \<^verbatim>\<open>"gemini-2.5-pro"\<close>, \<^verbatim>\<open>"gemini-2.5-flash"\<close> and 5.
\<close>

theorem config_defaults:
  "fst (construct p None None None) = Inr config \<and>
   critic_model config = ''gemini-2.5-pro'' \<and>
   worker_model config = ''gemini-2.5-flash'' \<and>
   max_search_iterations config = 5"
  by (simp add: config_def construct_def ResearchConfiguration_init_def)

text \<open>
  C10. Equality of holders is structural: two holders compare equal if and only if
  their \<open>critic_model\<close>, \<open>worker_model\<close> and \<open>max_search_iterations\<close> are pairwise
  equal.
\<close>

theorem eq_structural:
  "ResearchConfiguration_eq a b \<longleftrightarrow>
     critic_model a = critic_model b \<and>
     worker_model a = worker_model b \<and>
     max_search_iterations a = max_search_iterations b"
  by (simp add: ResearchConfiguration_eq_def)

theorem eq_structural_witness:
  "ResearchConfiguration_eq config (ResearchConfiguration_init None None None) \<and>
   \<not> ResearchConfiguration_eq config (ResearchConfiguration_init None None (Some 10))"
  using eq_structural [of config "ResearchConfiguration_init None None None"]
    eq_structural [of config "ResearchConfiguration_init None None (Some 10)"]
  by (simp add: config_def ResearchConfiguration_init_def)

end
